theory Spec2Isabelle
  imports Main
begin

section \<open>Python values that cross the boundaries of index.py\<close>

text \<open>
  A Python float as \<open>json.loads\<close> produces it: a finite value (sign, mantissa,
  binary exponent), an infinity (with its sign) or NaN. Only its truth value matters to
  index.py: \<open>bool(x)\<close> is \<open>x != 0\<close>, so both zeros are false and NaN is true.
\<close>

datatype pyfloat = Finite bool nat int | Infinity bool | NaN

fun float_nonzero :: "pyfloat \<Rightarrow> bool" where
  "float_nonzero (Finite negative mantissa exponent) = (mantissa \<noteq> 0)"
| "float_nonzero (Infinity negative) = True"
| "float_nonzero NaN = True"

text \<open>
  The JSON-serialisable values: what \<open>request.get_json()\<close> returns, what the flow
  input and the envelopes are made of. A dict is an association list read with
  \<open>map_of\<close> (a Python dict has no duplicate keys).
\<close>

datatype json =
    JNull
  | JBool bool
  | JInt int
  | JFloat pyfloat
  | JStr string
  | JArr "json list"
  | JObj "(string \<times> json) list"

text \<open>Python's truth value of a JSON value, as \<open>if not user_input\<close> tests it.\<close>

fun truthy :: "json \<Rightarrow> bool" where
  "truthy JNull = False"
| "truthy (JBool b) = b"
| "truthy (JInt n) = (n \<noteq> 0)"
| "truthy (JFloat x) = float_nonzero x"
| "truthy (JStr s) = (s \<noteq> [])"
| "truthy (JArr xs) = (xs \<noteq> [])"
| "truthy (JObj kvs) = (kvs \<noteq> [])"

text \<open>
  Every handler of index.py catches \<open>Exception\<close> and reads only \<open>str(e)\<close>, so an
  exception is its message.
\<close>

datatype exn = Exception string

fun str :: "exn \<Rightarrow> string" where
  "str (Exception message) = message"

fun type_name :: "json \<Rightarrow> string" where
  "type_name JNull = ''NoneType''"
| "type_name (JBool b) = ''bool''"
| "type_name (JInt n) = ''int''"
| "type_name (JFloat x) = ''float''"
| "type_name (JStr s) = ''str''"
| "type_name (JArr xs) = ''list''"
| "type_name (JObj kvs) = ''dict''"

definition quoted :: "string \<Rightarrow> string" where
  "quoted s = CHR 0x27 # s @ [CHR 0x27]"

text \<open>
  \<open>data.get(key, default)\<close>: the lookup of a dict; on any other value Python raises
  AttributeError (\<open>'list' object has no attribute 'get'\<close>).
\<close>

fun py_get :: "json \<Rightarrow> string \<Rightarrow> json \<Rightarrow> exn + json" where
  "py_get (JObj kvs) key dflt =
     Inr (case map_of kvs key of Some v \<Rightarrow> v | None \<Rightarrow> dflt)"
| "py_get v key dflt =
     Inl (Exception (quoted (type_name v) @ '' object has no attribute '' @ quoted ''get''))"

section \<open>The external flow service\<close>

text \<open>
  The keyword arguments of \<open>bedrock_agent.invoke_flow(**request_body)\<close>
  (index.py, lines 53 to 63).
\<close>

record flow_input =
  content :: json
  nodeName :: string
  nodeOutputName :: string

record invoke_request =
  flowIdentifier :: string
  flowAliasIdentifier :: string
  inputs :: "flow_input list"

text \<open>
  What consuming the response stream meets, step by step: an event (a dict), or a fault,
  the exception raised at that point of the loop, by the iterator or by the body of the
  loop on an item that is no dict. Nothing after a fault is reached. An item that is no
  dict and on which \<open>'flowOutputEvent' in event\<close> is false without raising (a list, a
  string without that text) passes as an event without the key does.
\<close>

datatype stream_item = Event "(string \<times> json) list" | Fault exn

text \<open>
  The value under \<open>'responseStream'\<close> of the response, a dict. The service client
  returns an event-stream object (botocore's EventStream, like any generator, defines
  neither \<open>__bool__\<close> nor \<open>__len__\<close>: it is true whatever it yields); a stub may
  return a plain list, which is false when it is empty.
\<close>

datatype response_stream = EventList "stream_item list" | EventStream "stream_item list"

text \<open>
  \<open>response.get('responseStream')\<close> is None when the key is missing.
  \<open>for event in response_body\<close> steps through the items; on None it raises TypeError
  at once.
\<close>

fun stream_items :: "response_stream option \<Rightarrow> stream_item list" where
  "stream_items None = [Fault (Exception (quoted ''NoneType'' @ '' object is not iterable''))]"
| "stream_items (Some (EventList xs)) = xs"
| "stream_items (Some (EventStream xs)) = xs"

text \<open>\<open>if response_body:\<close>, the truth value of that result.\<close>

fun stream_truthy :: "response_stream option \<Rightarrow> bool" where
  "stream_truthy None = False"
| "stream_truthy (Some (EventList xs)) = (xs \<noteq> [])"
| "stream_truthy (Some (EventStream xs)) = True"

record flow_response =
  responseStream :: "response_stream option"

section \<open>BedrockFlowConfig and BedrockFlowClient\<close>

record BedrockFlowConfig =
  flow_id :: string
  flow_alias_id :: string
  region :: string
  api_gateway_url :: "string option"

text \<open>
  The client holds its configuration and the service handle made by \<open>boto3.client\<close>;
  the handle's \<open>invoke_flow\<close> either raises or returns a response.
\<close>

record BedrockFlowClient =
  config :: BedrockFlowConfig
  bedrock_agent :: "invoke_request \<Rightarrow> exn + flow_response"

text \<open>
  The loop of \<open>_process_flow_response\<close> (lines 86 to 90): \<open>result\<close> is the list built
  so far, and an output is appended for each event that has the key.
\<close>

fun collect :: "stream_item list \<Rightarrow> json list \<Rightarrow> exn + json list" where
  "collect [] result = Inr result"
| "collect (Fault e # rest) result = Inl e"
| "collect (Event event # rest) result =
     (case map_of event ''flowOutputEvent'' of
        Some output \<Rightarrow> collect rest (result @ [output])
      | None \<Rightarrow> collect rest result)"

text \<open>
  \<open>_process_flow_response\<close> (lines 78 to 110); \<open>now\<close> is what
  \<open>datetime.now().isoformat()\<close> reads when the envelope is built.
\<close>

definition process_flow_response :: "flow_response \<Rightarrow> string \<Rightarrow> json" where
  "process_flow_response response now =
     (let response_body = responseStream response in
      if stream_truthy response_body then
        (case collect (stream_items response_body) [] of
           Inr result \<Rightarrow>
             JObj [(''success'', JBool True), (''data'', JArr result), (''timestamp'', JStr now)]
         | Inl e \<Rightarrow>
             JObj [(''success'', JBool False), (''error'', JStr (str e)), (''timestamp'', JStr now)])
      else
        JObj [(''success'', JBool False), (''error'', JStr ''No response from flow''),
              (''timestamp'', JStr now)])"

text \<open>
  The request that \<open>invoke_flow\<close> prepares (lines 53 to 63): the payload goes in
  unchanged as \<open>content\<close>, under the two fixed node names.
\<close>

definition request_body :: "BedrockFlowClient \<Rightarrow> json \<Rightarrow> invoke_request" where
  "request_body self input_data =
     \<lparr>flowIdentifier = flow_id (config self),
      flowAliasIdentifier = flow_alias_id (config self),
      inputs = [\<lparr>content = input_data, nodeName = ''FlowInputNode'',
                 nodeOutputName = ''document''\<rparr>]\<rparr>"

text \<open>
  \<open>BedrockFlowClient.invoke_flow\<close> (lines 39 to 76). The handler logs and re-raises, so
  an exception of the service call is the result \<open>Inl\<close>. The second component lists the
  requests sent to the service.
\<close>

definition invoke_flow ::
  "BedrockFlowClient \<Rightarrow> string \<Rightarrow> json \<Rightarrow> (exn + json) \<times> invoke_request list" where
  "invoke_flow self now input_data =
     (case bedrock_agent self (request_body self input_data) of
        Inl e \<Rightarrow> (Inl e, [request_body self input_data])
      | Inr response \<Rightarrow>
          (Inr (process_flow_response response now), [request_body self input_data]))"

section \<open>BedrockFlowAPI: the routes\<close>

text \<open>
  A request is what \<open>request.get_json()\<close> does on it: raise (a body that does not
  parse, a content type that is not JSON) or return the parsed value, None included.
  A response is its status and its JSON body.
\<close>

record http_request =
  get_json :: "exn + json"

record http_response =
  status :: nat
  body :: json

record BedrockFlowAPI =
  flow_client :: BedrockFlowClient

text \<open>
  The route \<open>/invoke-flow\<close> (lines 197 to 226). \<open>now_input\<close> is the clock reading put
  into the flow input, \<open>now_result\<close> the later one of the client's envelope.
  \<open>jsonify\<close> of a JSON value cannot fail and gives status 200 unless a status is
  returned with it.
\<close>

definition invoke_flow_route ::
  "BedrockFlowAPI \<Rightarrow> string \<Rightarrow> string \<Rightarrow> http_request \<Rightarrow> http_response \<times> invoke_request list" where
  "invoke_flow_route self now_input now_result request =
     (case get_json request of
        Inl e \<Rightarrow>
          (\<lparr>status = 500, body = JObj [(''success'', JBool False), (''error'', JStr (str e))]\<rparr>, [])
      | Inr data \<Rightarrow>
          (case py_get data ''input'' (JStr []) of
             Inl e \<Rightarrow>
               (\<lparr>status = 500,
                 body = JObj [(''success'', JBool False), (''error'', JStr (str e))]\<rparr>, [])
           | Inr user_input \<Rightarrow>
               if \<not> truthy user_input then
                 (\<lparr>status = 400,
                   body = JObj [(''success'', JBool False),
                                (''error'', JStr ''No input provided'')]\<rparr>, [])
               else
                 (let flow_input = JObj [(''query'', user_input), (''timestamp'', JStr now_input)];
                      (result, calls) = invoke_flow (flow_client self) now_result flow_input
                  in (case result of
                        Inr envelope \<Rightarrow> \<lparr>status = 200, body = envelope\<rparr>
                      | Inl e \<Rightarrow>
                          \<lparr>status = 500,
                           body = JObj [(''success'', JBool False), (''error'', JStr (str e))]\<rparr>,
                      calls))))"

text \<open>
  The route \<open>/health\<close> (lines 228 to 234). The handler is a closure over \<open>self\<close>, which
  it never reads.
\<close>

definition health_check :: "BedrockFlowAPI \<Rightarrow> string \<Rightarrow> http_response \<times> invoke_request list" where
  "health_check self now =
     (\<lparr>status = 200, body = JObj [(''status'', JStr ''healthy''), (''timestamp'', JStr now)]\<rparr>, [])"

section \<open>BedrockFlowIntegration\<close>

text \<open>
  The fields \<open>config\<close>, \<open>client\<close> and \<open>api\<close> of the class; the first is renamed,
  since the client has a field of that name.
\<close>

record BedrockFlowIntegration =
  integration_config :: BedrockFlowConfig
  client :: BedrockFlowClient
  api :: BedrockFlowAPI

text \<open>
  \<open>__init__\<close> (lines 243 to 250): one client, shared with the API. \<open>agent\<close> is the
  handle \<open>boto3.client('bedrock-agent-runtime', region_name=region)\<close> gave.
\<close>

definition BedrockFlowIntegration_init ::
  "string \<Rightarrow> string \<Rightarrow> string \<Rightarrow> (invoke_request \<Rightarrow> exn + flow_response) \<Rightarrow> BedrockFlowIntegration" where
  "BedrockFlowIntegration_init fid alias reg agent =
     (let cfg = \<lparr>flow_id = fid, flow_alias_id = alias, region = reg, api_gateway_url = None\<rparr>;
          cl = \<lparr>config = cfg, bedrock_agent = agent\<rparr>
      in \<lparr>integration_config = cfg, client = cl, api = \<lparr>flow_client = cl\<rparr>\<rparr>)"

text \<open>\<open>test_flow\<close> (lines 252 to 270), with the two clock readings as in the route.\<close>

definition test_flow ::
  "BedrockFlowIntegration \<Rightarrow> string \<Rightarrow> string \<Rightarrow> string \<Rightarrow> json \<times> invoke_request list" where
  "test_flow self now_input now_result test_input =
     (let flow_input = JObj [(''query'', JStr test_input), (''timestamp'', JStr now_input)];
          (result, calls) = invoke_flow (client self) now_result flow_input
      in (case result of
            Inr envelope \<Rightarrow> envelope
          | Inl e \<Rightarrow> JObj [(''success'', JBool False), (''error'', JStr (str e))],
          calls))"

section \<open>The envelope, as the specification words it\<close>

text \<open>
  \<open>lookup\<close> reads a key of an envelope; a field is populated when the key is there.
  An envelope is consistent when \<open>success\<close> is true with \<open>data\<close> and without
  \<open>error\<close>, or false with \<open>error\<close> and without \<open>data\<close>.
\<close>

definition lookup :: "json \<Rightarrow> string \<Rightarrow> json option" where
  "lookup envelope key = (case envelope of JObj kvs \<Rightarrow> map_of kvs key | _ \<Rightarrow> None)"

definition populated :: "json \<Rightarrow> string \<Rightarrow> bool" where
  "populated envelope key = (lookup envelope key \<noteq> None)"

definition envelope_consistent :: "json \<Rightarrow> bool" where
  "envelope_consistent envelope =
     (if lookup envelope ''success'' = Some (JBool True)
      then populated envelope ''data'' \<and> \<not> populated envelope ''error''
      else lookup envelope ''success'' = Some (JBool False) \<and>
           populated envelope ''error'' \<and> \<not> populated envelope ''data'')"

section \<open>Concrete services and requests\<close>

text \<open>
  The configuration that \<open>main\<close> falls back to, and services that fail, answer with no
  stream, with an empty list, with a stream of no events, with a stream of only a
  completion event, with two outputs among other events, and with a stream that breaks
  after its first output.
\<close>

definition example_config :: BedrockFlowConfig where
  "example_config =
     \<lparr>flow_id = ''YOUR_FLOW_ID'', flow_alias_id = ''YOUR_FLOW_ALIAS_ID'',
      region = ''us-east-1'', api_gateway_url = None\<rparr>"

definition service_down :: "invoke_request \<Rightarrow> exn + flow_response" where
  "service_down request = Inl (Exception ''Could not connect to the endpoint URL'')"

definition service_no_stream :: "invoke_request \<Rightarrow> exn + flow_response" where
  "service_no_stream request = Inr \<lparr>responseStream = None\<rparr>"

definition service_empty_list :: "invoke_request \<Rightarrow> exn + flow_response" where
  "service_empty_list request = Inr \<lparr>responseStream = Some (EventList [])\<rparr>"

definition service_silent :: "invoke_request \<Rightarrow> exn + flow_response" where
  "service_silent request = Inr \<lparr>responseStream = Some (EventStream [])\<rparr>"

definition service_completes :: "invoke_request \<Rightarrow> exn + flow_response" where
  "service_completes request =
     Inr \<lparr>responseStream = Some (EventStream
       [Event [(''flowCompletionEvent'', JObj [(''completionReason'', JStr ''SUCCESS'')])]])\<rparr>"

definition service_answers :: "invoke_request \<Rightarrow> exn + flow_response" where
  "service_answers request =
     Inr \<lparr>responseStream = Some (EventStream
       [Event [(''flowOutputEvent'', JStr ''first'')],
        Event [(''flowTraceEvent'', JStr ''trace'')],
        Event [(''flowOutputEvent'', JStr ''second'')],
        Event [(''flowCompletionEvent'', JStr ''SUCCESS'')]])\<rparr>"


definition example_client :: "(invoke_request \<Rightarrow> exn + flow_response) \<Rightarrow> BedrockFlowClient" where
  "example_client agent = \<lparr>config = example_config, bedrock_agent = agent\<rparr>"

definition example_api :: "(invoke_request \<Rightarrow> exn + flow_response) \<Rightarrow> BedrockFlowAPI" where
  "example_api agent = \<lparr>flow_client = example_client agent\<rparr>"

definition example_payload :: json where
  "example_payload = JObj [(''query'', JStr ''Hello''), (''timestamp'', JStr ''2024-05-01T10:00:00'')]"

section \<open>Facts about the client\<close>

text \<open>
  Every call of \<open>invoke_flow\<close> sends exactly one request, the prepared one; so a run
  that sent nothing did not call the client.
\<close>

lemma invoke_flow_calls: "snd (invoke_flow self now input_data) = [request_body self input_data]"
  by (simp add: invoke_flow_def split: sum.splits)

text \<open>
  The loop over a stream without fault appends, in order, the output of each event that
  has the key.
\<close>

lemma collect_events:
  "collect (map Event events) result =
     Inr (result @ map (\<lambda>event. the (map_of event ''flowOutputEvent''))
                      (filter (\<lambda>event. map_of event ''flowOutputEvent'' \<noteq> None) events))"
  by (induction events arbitrary: result) (auto split: option.splits)

lemma collect_untagged:
  "collect items result = Inr out \<Longrightarrow>
   \<forall>event. Event event \<in> set items \<longrightarrow> map_of event ''flowOutputEvent'' = None \<Longrightarrow>
   out = result"
proof (induction items result rule: collect.induct)
  case (1 result)
  then show ?case by simp
next
  case (2 e rest result)
  then show ?case by simp
next
  case (3 event rest result)
  then show ?case by (auto split: option.splits)
qed

text \<open>What \<open>_process_flow_response\<close> returns is consistent and carries a timestamp.\<close>

lemma process_flow_response_shape:
  "envelope_consistent (process_flow_response response now) \<and>
   populated (process_flow_response response now) ''timestamp''"
  by (simp add: process_flow_response_def envelope_consistent_def populated_def lookup_def
      Let_def split: sum.splits)

text \<open>The failure body that the route and \<open>test_flow\<close> build has no timestamp.\<close>

lemma caller_failure_shape:
  "envelope_consistent (JObj [(''success'', JBool False), (''error'', JStr message)]) \<and>
   \<not> populated (JObj [(''success'', JBool False), (''error'', JStr message)]) ''timestamp''"
  by (simp add: envelope_consistent_def populated_def lookup_def)

section \<open>Errors of the flow client\<close>




section \<open>The envelope invariant\<close>

text \<open>
  The body that the route answers to a request without input has \<open>success\<close> and
  \<open>error\<close> only: no timestamp.
\<close>

theorem route_envelope_without_timestamp:
  "\<not> populated
       (body (fst (invoke_flow_route (example_api service_answers) ''2024-05-01T10:00:00''
                     ''2024-05-01T10:00:01'' \<lparr>get_json = Inr (JObj [])\<rparr>)))
       ''timestamp''"
  by (simp add: invoke_flow_route_def populated_def lookup_def)

text \<open>
  C2, as the code has it. Every envelope returned by the route, by \<open>test_flow\<close> and by
  \<open>invoke_flow\<close> has exactly one of \<open>data\<close> and \<open>error\<close>, as \<open>success\<close> says. The
  timestamp is there exactly in the envelopes that the client built: always when
  \<open>invoke_flow\<close> returns one, in the route's body exactly when the status is 200, and
  in the result of \<open>test_flow\<close> exactly when the service call returned; there the
  envelope is the one \<open>_process_flow_response\<close> made of the response. Every other
  body of the route has status 400 or 500 and is \<open>{success: false, error: message}\<close>;
  when the service call raises \<open>e\<close>, the route answers 500 with
  \<open>{success: false, error: str(e)}\<close> and \<open>test_flow\<close> returns that same body.
\<close>

theorem envelope_invariant:
  "envelope_consistent (body (fst (invoke_flow_route api_self now_input now_result request))) \<and>
   (populated (body (fst (invoke_flow_route api_self now_input now_result request))) ''timestamp''
      = (status (fst (invoke_flow_route api_self now_input now_result request)) = 200)) \<and>
   (status (fst (invoke_flow_route api_self now_input now_result request)) = 200 \<or>
    status (fst (invoke_flow_route api_self now_input now_result request)) \<in> {400, 500} \<and>
    (\<exists>message. body (fst (invoke_flow_route api_self now_input now_result request)) =
       JObj [(''success'', JBool False), (''error'', JStr message)])) \<and>
   (get_json request = Inr (JObj kvs) \<longrightarrow> map_of kvs ''input'' = Some v \<longrightarrow> truthy v \<longrightarrow>
      (\<forall>e. bedrock_agent (flow_client api_self)
         \<lparr>flowIdentifier = flow_id (config (flow_client api_self)),
          flowAliasIdentifier = flow_alias_id (config (flow_client api_self)),
          inputs = [\<lparr>content = JObj [(''query'', v), (''timestamp'', JStr now_input)],
                     nodeName = ''FlowInputNode'', nodeOutputName = ''document''\<rparr>]\<rparr> = Inl e \<longrightarrow>
         fst (invoke_flow_route api_self now_input now_result request) =
           \<lparr>status = 500,
            body = JObj [(''success'', JBool False), (''error'', JStr (str e))]\<rparr>) \<and>
      (\<forall>response. bedrock_agent (flow_client api_self)
         \<lparr>flowIdentifier = flow_id (config (flow_client api_self)),
          flowAliasIdentifier = flow_alias_id (config (flow_client api_self)),
          inputs = [\<lparr>content = JObj [(''query'', v), (''timestamp'', JStr now_input)],
                     nodeName = ''FlowInputNode'', nodeOutputName = ''document''\<rparr>]\<rparr> = Inr response \<longrightarrow>
         fst (invoke_flow_route api_self now_input now_result request) =
           \<lparr>status = 200, body = process_flow_response response now_result\<rparr>)) \<and>
   envelope_consistent (fst (test_flow self now_input now_result test_input)) \<and>
   (populated (fst (test_flow self now_input now_result test_input)) ''timestamp''
      = (\<exists>response. bedrock_agent (client self)
           \<lparr>flowIdentifier = flow_id (config (client self)),
            flowAliasIdentifier = flow_alias_id (config (client self)),
            inputs = [\<lparr>content = JObj [(''query'', JStr test_input), (''timestamp'', JStr now_input)],
                       nodeName = ''FlowInputNode'', nodeOutputName = ''document''\<rparr>]\<rparr> = Inr response)) \<and>
   (\<forall>e. bedrock_agent (client self)
           \<lparr>flowIdentifier = flow_id (config (client self)),
            flowAliasIdentifier = flow_alias_id (config (client self)),
            inputs = [\<lparr>content = JObj [(''query'', JStr test_input), (''timestamp'', JStr now_input)],
                       nodeName = ''FlowInputNode'', nodeOutputName = ''document''\<rparr>]\<rparr> = Inl e \<longrightarrow>
      fst (test_flow self now_input now_result test_input) =
        JObj [(''success'', JBool False), (''error'', JStr (str e))]) \<and>
   (\<forall>response. bedrock_agent (client self)
           \<lparr>flowIdentifier = flow_id (config (client self)),
            flowAliasIdentifier = flow_alias_id (config (client self)),
            inputs = [\<lparr>content = JObj [(''query'', JStr test_input), (''timestamp'', JStr now_input)],
                       nodeName = ''FlowInputNode'', nodeOutputName = ''document''\<rparr>]\<rparr> = Inr response \<longrightarrow>
      fst (test_flow self now_input now_result test_input) =
        process_flow_response response now_result) \<and>
   (\<forall>envelope. fst (invoke_flow client_self now input_data) = Inr envelope \<longrightarrow>
      envelope_consistent envelope \<and> populated envelope ''timestamp'')"
proof -
  let ?R = "invoke_flow_route api_self now_input now_result request"
  let ?T = "test_flow self now_input now_result test_input"
  have route:
    "envelope_consistent (body (fst ?R)) \<and>
     (populated (body (fst ?R)) ''timestamp'' = (status (fst ?R) = 200))"
    using caller_failure_shape process_flow_response_shape
    by (simp add: invoke_flow_route_def invoke_flow_def Let_def split: sum.splits prod.splits)
  have bodies:
    "status (fst ?R) = 200 \<or>
     status (fst ?R) \<in> {400, 500} \<and>
     (\<exists>message. body (fst ?R) = JObj [(''success'', JBool False), (''error'', JStr message)])"
    by (simp add: invoke_flow_route_def invoke_flow_def Let_def split: sum.splits prod.splits)
  have forwarded:
    "get_json request = Inr (JObj kvs) \<longrightarrow> map_of kvs ''input'' = Some v \<longrightarrow> truthy v \<longrightarrow>
      (\<forall>e. bedrock_agent (flow_client api_self)
         \<lparr>flowIdentifier = flow_id (config (flow_client api_self)),
          flowAliasIdentifier = flow_alias_id (config (flow_client api_self)),
          inputs = [\<lparr>content = JObj [(''query'', v), (''timestamp'', JStr now_input)],
                     nodeName = ''FlowInputNode'', nodeOutputName = ''document''\<rparr>]\<rparr> = Inl e \<longrightarrow>
         fst ?R = \<lparr>status = 500,
            body = JObj [(''success'', JBool False), (''error'', JStr (str e))]\<rparr>) \<and>
      (\<forall>response. bedrock_agent (flow_client api_self)
         \<lparr>flowIdentifier = flow_id (config (flow_client api_self)),
          flowAliasIdentifier = flow_alias_id (config (flow_client api_self)),
          inputs = [\<lparr>content = JObj [(''query'', v), (''timestamp'', JStr now_input)],
                     nodeName = ''FlowInputNode'', nodeOutputName = ''document''\<rparr>]\<rparr> = Inr response \<longrightarrow>
         fst ?R = \<lparr>status = 200, body = process_flow_response response now_result\<rparr>)"
    by (simp add: invoke_flow_route_def invoke_flow_def request_body_def Let_def)
  have test:
    "envelope_consistent (fst ?T) \<and>
     (populated (fst ?T) ''timestamp''
        = (\<exists>response. bedrock_agent (client self)
           \<lparr>flowIdentifier = flow_id (config (client self)),
            flowAliasIdentifier = flow_alias_id (config (client self)),
            inputs = [\<lparr>content = JObj [(''query'', JStr test_input), (''timestamp'', JStr now_input)],
                       nodeName = ''FlowInputNode'', nodeOutputName = ''document''\<rparr>]\<rparr> = Inr response))"
    using caller_failure_shape process_flow_response_shape
    by (simp add: test_flow_def invoke_flow_def request_body_def Let_def
        split: sum.splits prod.splits)
  have handler:
    "(\<forall>e. bedrock_agent (client self)
           \<lparr>flowIdentifier = flow_id (config (client self)),
            flowAliasIdentifier = flow_alias_id (config (client self)),
            inputs = [\<lparr>content = JObj [(''query'', JStr test_input), (''timestamp'', JStr now_input)],
                       nodeName = ''FlowInputNode'', nodeOutputName = ''document''\<rparr>]\<rparr> = Inl e \<longrightarrow>
      fst ?T = JObj [(''success'', JBool False), (''error'', JStr (str e))]) \<and>
     (\<forall>response. bedrock_agent (client self)
           \<lparr>flowIdentifier = flow_id (config (client self)),
            flowAliasIdentifier = flow_alias_id (config (client self)),
            inputs = [\<lparr>content = JObj [(''query'', JStr test_input), (''timestamp'', JStr now_input)],
                       nodeName = ''FlowInputNode'', nodeOutputName = ''document''\<rparr>]\<rparr> = Inr response \<longrightarrow>
      fst ?T = process_flow_response response now_result)"
    by (simp add: test_flow_def invoke_flow_def request_body_def Let_def)
  have inv:
    "\<forall>envelope. fst (invoke_flow client_self now input_data) = Inr envelope \<longrightarrow>
       envelope_consistent envelope \<and> populated envelope ''timestamp''"
    using process_flow_response_shape
    by (auto simp add: invoke_flow_def split: sum.splits)
  from route bodies forwarded test handler inv show ?thesis by blast
qed

theorem envelope_invariant_witness:
  "envelope_consistent
     (JObj [(''success'', JBool True), (''data'', JArr [JStr ''first'', JStr ''second'']),
            (''timestamp'', JStr ''2024-05-01T10:00:01'')]) \<and>
   populated
     (JObj [(''success'', JBool True), (''data'', JArr [JStr ''first'', JStr ''second'']),
            (''timestamp'', JStr ''2024-05-01T10:00:01'')]) ''timestamp'' \<and>
   fst (invoke_flow_route (example_api service_down) ''2024-05-01T10:00:00''
          ''2024-05-01T10:00:01'' \<lparr>get_json = Inr (JObj [(''input'', JStr ''Hello'')])\<rparr>) =
     \<lparr>status = 500,
      body = JObj [(''success'', JBool False),
                   (''error'', JStr ''Could not connect to the endpoint URL'')]\<rparr> \<and>
   fst (test_flow (BedrockFlowIntegration_init ''YOUR_FLOW_ID'' ''YOUR_FLOW_ALIAS_ID''
          ''us-east-1'' service_down) ''2024-05-01T10:00:00'' ''2024-05-01T10:00:01'' ''Hello'') =
     JObj [(''success'', JBool False), (''error'', JStr ''Could not connect to the endpoint URL'')]"
proof -
  have returned:
    "fst (invoke_flow (example_client service_answers) ''2024-05-01T10:00:01'' example_payload) =
       Inr (JObj [(''success'', JBool True), (''data'', JArr [JStr ''first'', JStr ''second'']),
                  (''timestamp'', JStr ''2024-05-01T10:00:01'')])"
    by (simp add: invoke_flow_def process_flow_response_def example_client_def
        service_answers_def)
  have parsed: "get_json \<lparr>get_json = Inr (JObj [(''input'', JStr ''Hello'')])\<rparr> =
      Inr (JObj [(''input'', JStr ''Hello'')])"
    by simp
  have given: "map_of [(''input'', JStr ''Hello'')] ''input'' = Some (JStr ''Hello'')"
    by simp
  have true: "truthy (JStr ''Hello'')"
    by simp
  have route_down: "bedrock_agent (flow_client (example_api service_down))
      \<lparr>flowIdentifier = flow_id (config (flow_client (example_api service_down))),
       flowAliasIdentifier = flow_alias_id (config (flow_client (example_api service_down))),
       inputs = [\<lparr>content = JObj [(''query'', JStr ''Hello''),
                                   (''timestamp'', JStr ''2024-05-01T10:00:00'')],
                  nodeName = ''FlowInputNode'', nodeOutputName = ''document''\<rparr>]\<rparr> =
      Inl (Exception ''Could not connect to the endpoint URL'')"
    by (simp add: example_api_def example_client_def service_down_def)
  have test_down: "bedrock_agent (client (BedrockFlowIntegration_init ''YOUR_FLOW_ID''
        ''YOUR_FLOW_ALIAS_ID'' ''us-east-1'' service_down))
      \<lparr>flowIdentifier = flow_id (config (client (BedrockFlowIntegration_init ''YOUR_FLOW_ID''
         ''YOUR_FLOW_ALIAS_ID'' ''us-east-1'' service_down))),
       flowAliasIdentifier = flow_alias_id (config (client (BedrockFlowIntegration_init
         ''YOUR_FLOW_ID'' ''YOUR_FLOW_ALIAS_ID'' ''us-east-1'' service_down))),
       inputs = [\<lparr>content = JObj [(''query'', JStr ''Hello''),
                                   (''timestamp'', JStr ''2024-05-01T10:00:00'')],
                  nodeName = ''FlowInputNode'', nodeOutputName = ''document''\<rparr>]\<rparr> =
      Inl (Exception ''Could not connect to the endpoint URL'')"
    by (simp add: BedrockFlowIntegration_init_def service_down_def Let_def)
  from envelope_invariant [of "example_api service_down" "''2024-05-01T10:00:00''"
      "''2024-05-01T10:00:01''" "\<lparr>get_json = Inr (JObj [(''input'', JStr ''Hello'')])\<rparr>"
      "[(''input'', JStr ''Hello'')]" "JStr ''Hello''"
      "BedrockFlowIntegration_init ''YOUR_FLOW_ID'' ''YOUR_FLOW_ALIAS_ID'' ''us-east-1'' service_down"
      "''Hello''" "example_client service_answers" "''2024-05-01T10:00:01''" example_payload]
    returned parsed given true route_down test_down
  show ?thesis by (simp del: truthy.simps)
qed

section \<open>The stream: absent, empty, present\<close>

text \<open>
  An event stream that yields no event is an object, and true for \<open>if response_body:\<close>:
  the loop runs over nothing and the result is a success with no data, not
  \<open>No response from flow\<close>.
\<close>

theorem empty_event_stream_succeeds:
  "fst (invoke_flow (example_client service_silent) ''2024-05-01T10:00:01'' example_payload) =
     Inr (JObj [(''success'', JBool True), (''data'', JArr []),
                (''timestamp'', JStr ''2024-05-01T10:00:01'')])"
  by (simp add: invoke_flow_def process_flow_response_def example_client_def service_silent_def)

text \<open>
  C3, as the code has it. For every response of the service in which the stream is
  absent (the key is missing or holds None) or is an empty list, \<open>invoke_flow\<close> returns
  \<open>{success: false, error: "No response from flow", timestamp: now}\<close>.
\<close>

theorem no_response_from_flow:
  assumes "bedrock_agent self (request_body self input_data) = Inr response"
    and "responseStream response = None \<or> responseStream response = Some (EventList [])"
  shows "fst (invoke_flow self now input_data) =
     Inr (JObj [(''success'', JBool False), (''error'', JStr ''No response from flow''),
                (''timestamp'', JStr now)])"
  using assms by (auto simp add: invoke_flow_def process_flow_response_def)

theorem no_response_from_flow_witness:
  "fst (invoke_flow (example_client service_no_stream) ''2024-05-01T10:00:01'' example_payload) =
     Inr (JObj [(''success'', JBool False), (''error'', JStr ''No response from flow''),
                (''timestamp'', JStr ''2024-05-01T10:00:01'')]) \<and>
   fst (invoke_flow (example_client service_empty_list) ''2024-05-01T10:00:01'' example_payload) =
     Inr (JObj [(''success'', JBool False), (''error'', JStr ''No response from flow''),
                (''timestamp'', JStr ''2024-05-01T10:00:01'')])"
proof -
  have absent: "bedrock_agent (example_client service_no_stream)
      (request_body (example_client service_no_stream) example_payload) =
        Inr \<lparr>responseStream = None\<rparr>"
    by (simp add: example_client_def service_no_stream_def)
  have empty: "bedrock_agent (example_client service_empty_list)
      (request_body (example_client service_empty_list) example_payload) =
        Inr \<lparr>responseStream = Some (EventList [])\<rparr>"
    by (simp add: example_client_def service_empty_list_def)
  show ?thesis
    using no_response_from_flow [OF absent] no_response_from_flow [OF empty] by simp
qed

text \<open>
  C4. For every response of the service in which the stream is present (an event-stream
  object, or a list that is not empty) and is consumed without error, \<open>invoke_flow\<close>
  returns \<open>{success: true, data: result, timestamp: now}\<close>, where \<open>result\<close> is what the
  loop collected; when no event of the stream has the key \<open>flowOutputEvent\<close>, the data
  is the empty list.
\<close>

theorem present_stream_success:
  assumes "bedrock_agent self (request_body self input_data) = Inr response"
    and "stream_truthy (responseStream response)"
    and "collect (stream_items (responseStream response)) [] = Inr result"
  shows "fst (invoke_flow self now input_data) =
      Inr (JObj [(''success'', JBool True), (''data'', JArr result), (''timestamp'', JStr now)]) \<and>
    ((\<forall>event. Event event \<in> set (stream_items (responseStream response)) \<longrightarrow>
         map_of event ''flowOutputEvent'' = None) \<longrightarrow>
     fst (invoke_flow self now input_data) =
      Inr (JObj [(''success'', JBool True), (''data'', JArr []), (''timestamp'', JStr now)]))"
proof -
  have first: "fst (invoke_flow self now input_data) =
      Inr (JObj [(''success'', JBool True), (''data'', JArr result), (''timestamp'', JStr now)])"
    using assms by (simp add: invoke_flow_def process_flow_response_def)
  have "result = []"
    if "\<forall>event. Event event \<in> set (stream_items (responseStream response)) \<longrightarrow>
         map_of event ''flowOutputEvent'' = None"
    using collect_untagged [OF assms(3) that] .
  with first show ?thesis by simp
qed

theorem present_stream_success_witness:
  "fst (invoke_flow (example_client service_answers) ''2024-05-01T10:00:01'' example_payload) =
     Inr (JObj [(''success'', JBool True), (''data'', JArr [JStr ''first'', JStr ''second'']),
                (''timestamp'', JStr ''2024-05-01T10:00:01'')]) \<and>
   fst (invoke_flow (example_client service_completes) ''2024-05-01T10:00:01'' example_payload) =
     Inr (JObj [(''success'', JBool True), (''data'', JArr []),
                (''timestamp'', JStr ''2024-05-01T10:00:01'')])"
proof -
  have answers: "bedrock_agent (example_client service_answers)
      (request_body (example_client service_answers) example_payload) =
        Inr \<lparr>responseStream = Some (EventStream
          [Event [(''flowOutputEvent'', JStr ''first'')],
           Event [(''flowTraceEvent'', JStr ''trace'')],
           Event [(''flowOutputEvent'', JStr ''second'')],
           Event [(''flowCompletionEvent'', JStr ''SUCCESS'')]])\<rparr>"
    by (simp add: example_client_def service_answers_def)
  have completes: "bedrock_agent (example_client service_completes)
      (request_body (example_client service_completes) example_payload) =
        Inr \<lparr>responseStream = Some (EventStream
          [Event [(''flowCompletionEvent'', JObj [(''completionReason'', JStr ''SUCCESS'')])]])\<rparr>"
    by (simp add: example_client_def service_completes_def)
  have one:
    "fst (invoke_flow (example_client service_answers) ''2024-05-01T10:00:01'' example_payload) =
       Inr (JObj [(''success'', JBool True), (''data'', JArr [JStr ''first'', JStr ''second'']),
                  (''timestamp'', JStr ''2024-05-01T10:00:01'')])"
    using present_stream_success [OF answers, of "[JStr ''first'', JStr ''second'']"] by simp
  have two:
    "fst (invoke_flow (example_client service_completes) ''2024-05-01T10:00:01'' example_payload) =
       Inr (JObj [(''success'', JBool True), (''data'', JArr []),
                  (''timestamp'', JStr ''2024-05-01T10:00:01'')])"
    using present_stream_success [OF completes, of "[]"] by simp
  from one two show ?thesis by simp
qed

text \<open>
  C5. For every stream that is consumed to its end, the data of the envelope are the
  outputs, the values under the key \<open>flowOutputEvent\<close>, of the events that have the key,
  in the order of arrival; an event without the key adds nothing.
\<close>

theorem outputs_in_arrival_order:
  assumes "bedrock_agent self (request_body self input_data) = Inr response"
    and "stream_truthy (responseStream response)"
    and "stream_items (responseStream response) = map Event events"
  shows "fst (invoke_flow self now input_data) =
      Inr (JObj [(''success'', JBool True),
                 (''data'', JArr (map (\<lambda>event. the (map_of event ''flowOutputEvent''))
                    (filter (\<lambda>event. map_of event ''flowOutputEvent'' \<noteq> None) events))),
                 (''timestamp'', JStr now)])"
  using assms by (simp add: invoke_flow_def process_flow_response_def collect_events)

theorem outputs_in_arrival_order_witness:
  "fst (invoke_flow (example_client service_answers) ''2024-05-01T10:00:01'' example_payload) =
     Inr (JObj [(''success'', JBool True), (''data'', JArr [JStr ''first'', JStr ''second'']),
                (''timestamp'', JStr ''2024-05-01T10:00:01'')])"
proof -
  have answers: "bedrock_agent (example_client service_answers)
      (request_body (example_client service_answers) example_payload) =
        Inr \<lparr>responseStream = Some (EventStream
          [Event [(''flowOutputEvent'', JStr ''first'')],
           Event [(''flowTraceEvent'', JStr ''trace'')],
           Event [(''flowOutputEvent'', JStr ''second'')],
           Event [(''flowCompletionEvent'', JStr ''SUCCESS'')]])\<rparr>"
    by (simp add: example_client_def service_answers_def)
  show ?thesis
    using outputs_in_arrival_order [OF answers, of
        "[[(''flowOutputEvent'', JStr ''first'')], [(''flowTraceEvent'', JStr ''trace'')],
          [(''flowOutputEvent'', JStr ''second'')], [(''flowCompletionEvent'', JStr ''SUCCESS'')]]"]
    by simp
qed

section \<open>The route /invoke-flow\<close>

text \<open>
  C6. For every request whose body is a JSON object in which \<open>input\<close> is omitted or is
  the empty string, the route answers status 400 with the body
  \<open>{success: false, error: "No input provided"}\<close>, and no request is sent to the
  service: the client is not invoked.
\<close>

theorem missing_input_rejected:
  assumes "get_json request = Inr (JObj kvs)"
    and "map_of kvs ''input'' = None \<or> map_of kvs ''input'' = Some (JStr [])"
  shows "invoke_flow_route self now_input now_result request =
     (\<lparr>status = 400,
       body = JObj [(''success'', JBool False), (''error'', JStr ''No input provided'')]\<rparr>, [])"
  using assms by (auto simp add: invoke_flow_route_def)

theorem missing_input_rejected_witness:
  "invoke_flow_route (example_api service_answers) ''2024-05-01T10:00:00'' ''2024-05-01T10:00:01''
     \<lparr>get_json = Inr (JObj [(''other'', JStr ''Hello'')])\<rparr> =
     (\<lparr>status = 400,
       body = JObj [(''success'', JBool False), (''error'', JStr ''No input provided'')]\<rparr>, []) \<and>
   invoke_flow_route (example_api service_answers) ''2024-05-01T10:00:00'' ''2024-05-01T10:00:01''
     \<lparr>get_json = Inr (JObj [(''input'', JStr [])])\<rparr> =
     (\<lparr>status = 400,
       body = JObj [(''success'', JBool False), (''error'', JStr ''No input provided'')]\<rparr>, [])"
  using missing_input_rejected [of "\<lparr>get_json = Inr (JObj [(''other'', JStr ''Hello'')])\<rparr>"
      "[(''other'', JStr ''Hello'')]" "example_api service_answers"
      "''2024-05-01T10:00:00''" "''2024-05-01T10:00:01''"]
    missing_input_rejected [of "\<lparr>get_json = Inr (JObj [(''input'', JStr [])])\<rparr>"
      "[(''input'', JStr [])]" "example_api service_answers"
      "''2024-05-01T10:00:00''" "''2024-05-01T10:00:01''"]
  by simp

text \<open>
  C9. For every request whose body does not parse (\<open>get_json\<close> raises) or parses to a
  value that is no JSON object (None included), the route answers status 500 with
  \<open>{success: false, error: message}\<close>, not the 400 of a missing input: the message is
  that of the parser's exception, or of the AttributeError that \<open>data.get\<close> raises.
\<close>

theorem unparsed_body_is_500:
  "(get_json request = Inl e \<longrightarrow>
      invoke_flow_route self now_input now_result request =
        (\<lparr>status = 500, body = JObj [(''success'', JBool False), (''error'', JStr (str e))]\<rparr>, [])) \<and>
   (get_json request = Inr v \<longrightarrow> (\<forall>kvs. v \<noteq> JObj kvs) \<longrightarrow>
      invoke_flow_route self now_input now_result request =
        (\<lparr>status = 500,
          body = JObj [(''success'', JBool False),
                       (''error'', JStr (quoted (type_name v) @ '' object has no attribute '' @
                                         quoted ''get''))]\<rparr>, []))"
  by (cases v) (simp_all add: invoke_flow_route_def)

theorem unparsed_body_is_500_witness:
  "invoke_flow_route (example_api service_answers) ''2024-05-01T10:00:00'' ''2024-05-01T10:00:01''
     \<lparr>get_json = Inl (Exception ''400 Bad Request: Failed to decode JSON object'')\<rparr> =
     (\<lparr>status = 500,
       body = JObj [(''success'', JBool False),
                    (''error'', JStr ''400 Bad Request: Failed to decode JSON object'')]\<rparr>, []) \<and>
   invoke_flow_route (example_api service_answers) ''2024-05-01T10:00:00'' ''2024-05-01T10:00:01''
     \<lparr>get_json = Inr JNull\<rparr> =
     (\<lparr>status = 500,
       body = JObj [(''success'', JBool False),
                    (''error'', JStr (quoted ''NoneType'' @ '' object has no attribute '' @
                                      quoted ''get''))]\<rparr>, [])"
  using unparsed_body_is_500 [of
      "\<lparr>get_json = Inl (Exception ''400 Bad Request: Failed to decode JSON object'')\<rparr>"
      "Exception ''400 Bad Request: Failed to decode JSON object''"
      "example_api service_answers" "''2024-05-01T10:00:00''" "''2024-05-01T10:00:01''"]
    unparsed_body_is_500 [of "\<lparr>get_json = Inr JNull\<rparr>" _
      "example_api service_answers" "''2024-05-01T10:00:00''" "''2024-05-01T10:00:01''" JNull]
  by simp

text \<open>
  C10. The check of \<open>input\<close> is Python's truth value. For every request whose body is a
  JSON object with a value \<open>v\<close> under \<open>input\<close>: when \<open>v\<close> is false the route answers
  the 400 of a missing input and sends nothing; when \<open>v\<close> is true, of whatever type,
  the route sends the service exactly one request, for the configured flow and alias,
  whose content is \<open>{query: v, timestamp: now}\<close> under the two fixed node names, and
  does not answer 400. The false values are null, false, 0, a float zero, the empty
  string, the empty array and the empty object, and no other.
\<close>

theorem input_check_is_truthiness:
  assumes "get_json request = Inr (JObj kvs)" and "map_of kvs ''input'' = Some v"
  shows "(\<not> truthy v \<longrightarrow>
      invoke_flow_route self now_input now_result request =
        (\<lparr>status = 400,
          body = JObj [(''success'', JBool False), (''error'', JStr ''No input provided'')]\<rparr>, [])) \<and>
    (truthy v \<longrightarrow>
      snd (invoke_flow_route self now_input now_result request) =
        [\<lparr>flowIdentifier = flow_id (config (flow_client self)),
          flowAliasIdentifier = flow_alias_id (config (flow_client self)),
          inputs = [\<lparr>content = JObj [(''query'', v), (''timestamp'', JStr now_input)],
                     nodeName = ''FlowInputNode'', nodeOutputName = ''document''\<rparr>]\<rparr>] \<and>
      status (fst (invoke_flow_route self now_input now_result request)) \<noteq> 400) \<and>
    (truthy v = (v \<notin> {JNull, JBool False, JInt 0, JStr [], JArr [], JObj []} \<and>
                 (\<forall>negative exponent. v \<noteq> JFloat (Finite negative 0 exponent))))"
proof -
  have falsy: "\<not> truthy v \<longrightarrow>
      invoke_flow_route self now_input now_result request =
        (\<lparr>status = 400,
          body = JObj [(''success'', JBool False), (''error'', JStr ''No input provided'')]\<rparr>, [])"
    using assms by (simp add: invoke_flow_route_def)
  have forwarded: "truthy v \<longrightarrow>
      snd (invoke_flow_route self now_input now_result request) =
        [\<lparr>flowIdentifier = flow_id (config (flow_client self)),
          flowAliasIdentifier = flow_alias_id (config (flow_client self)),
          inputs = [\<lparr>content = JObj [(''query'', v), (''timestamp'', JStr now_input)],
                     nodeName = ''FlowInputNode'', nodeOutputName = ''document''\<rparr>]\<rparr>] \<and>
      status (fst (invoke_flow_route self now_input now_result request)) \<noteq> 400"
    using assms
    by (simp add: invoke_flow_route_def invoke_flow_def request_body_def Let_def
        split: sum.splits prod.splits)
  have float: "float_nonzero x = (\<forall>negative exponent. x \<noteq> Finite negative 0 exponent)" for x
    by (cases x) auto
  have kinds: "truthy v = (v \<notin> {JNull, JBool False, JInt 0, JStr [], JArr [], JObj []} \<and>
                 (\<forall>negative exponent. v \<noteq> JFloat (Finite negative 0 exponent)))"
    by (cases v) (auto simp add: float)
  from falsy forwarded kinds show ?thesis by simp
qed

theorem input_check_is_truthiness_witness:
  "invoke_flow_route (example_api service_answers) ''2024-05-01T10:00:00'' ''2024-05-01T10:00:01''
     \<lparr>get_json = Inr (JObj [(''input'', JInt 0)])\<rparr> =
     (\<lparr>status = 400,
       body = JObj [(''success'', JBool False), (''error'', JStr ''No input provided'')]\<rparr>, []) \<and>
   snd (invoke_flow_route (example_api service_answers) ''2024-05-01T10:00:00''
          ''2024-05-01T10:00:01'' \<lparr>get_json = Inr (JObj [(''input'', JArr [JInt 7])])\<rparr>) =
     [\<lparr>flowIdentifier = ''YOUR_FLOW_ID'', flowAliasIdentifier = ''YOUR_FLOW_ALIAS_ID'',
       inputs = [\<lparr>content = JObj [(''query'', JArr [JInt 7]),
                                   (''timestamp'', JStr ''2024-05-01T10:00:00'')],
                  nodeName = ''FlowInputNode'', nodeOutputName = ''document''\<rparr>]\<rparr>]"
  using input_check_is_truthiness [of "\<lparr>get_json = Inr (JObj [(''input'', JInt 0)])\<rparr>"
      "[(''input'', JInt 0)]" "JInt 0" "example_api service_answers"
      "''2024-05-01T10:00:00''" "''2024-05-01T10:00:01''"]
    input_check_is_truthiness [of "\<lparr>get_json = Inr (JObj [(''input'', JArr [JInt 7])])\<rparr>"
      "[(''input'', JArr [JInt 7])]" "JArr [JInt 7]" "example_api service_answers"
      "''2024-05-01T10:00:00''" "''2024-05-01T10:00:01''"]
  by (simp add: example_api_def example_client_def example_config_def)

section \<open>The route /health\<close>

text \<open>
  C7. Whatever the API object, its client and its service are, \<open>health_check\<close> answers
  status 200 with the body \<open>{status: "healthy", timestamp: now}\<close> and sends nothing to
  the service.
\<close>

theorem health_check_always_healthy:
  "health_check self now =
     (\<lparr>status = 200,
       body = JObj [(''status'', JStr ''healthy''), (''timestamp'', JStr now)]\<rparr>, [])"
  by (simp add: health_check_def)

section \<open>test_flow and the route build the same input\<close>

text \<open>
  C8. For every text, \<open>test_flow\<close> sends the service one request whose content is
  \<open>{query: text, timestamp: now}\<close>, unchanged, under the two fixed node names; the
  route, given a body whose \<open>input\<close> is the same text (not empty, so that the route
  accepts it), sends the same request.
\<close>

theorem test_flow_same_input_shape:
  "snd (test_flow (BedrockFlowIntegration_init fid alias reg agent) now_input now_result test_input) =
     [\<lparr>flowIdentifier = fid, flowAliasIdentifier = alias,
       inputs = [\<lparr>content = JObj [(''query'', JStr test_input), (''timestamp'', JStr now_input)],
                  nodeName = ''FlowInputNode'', nodeOutputName = ''document''\<rparr>]\<rparr>] \<and>
   (test_input \<noteq> [] \<longrightarrow> get_json request = Inr (JObj kvs) \<longrightarrow>
    map_of kvs ''input'' = Some (JStr test_input) \<longrightarrow>
      snd (invoke_flow_route (api (BedrockFlowIntegration_init fid alias reg agent))
             now_input now_result request) =
      snd (test_flow (BedrockFlowIntegration_init fid alias reg agent)
             now_input now_result test_input))"
  by (simp add: test_flow_def invoke_flow_route_def BedrockFlowIntegration_init_def
      invoke_flow_def request_body_def Let_def split: sum.splits prod.splits)

theorem test_flow_same_input_shape_witness:
  "snd (invoke_flow_route (api (BedrockFlowIntegration_init ''YOUR_FLOW_ID'' ''YOUR_FLOW_ALIAS_ID''
          ''us-east-1'' service_answers)) ''2024-05-01T10:00:00'' ''2024-05-01T10:00:01''
          \<lparr>get_json = Inr (JObj [(''input'', JStr ''Hello, this is a test message'')])\<rparr>) =
     [\<lparr>flowIdentifier = ''YOUR_FLOW_ID'', flowAliasIdentifier = ''YOUR_FLOW_ALIAS_ID'',
       inputs = [\<lparr>content = JObj [(''query'', JStr ''Hello, this is a test message''),
                                   (''timestamp'', JStr ''2024-05-01T10:00:00'')],
                  nodeName = ''FlowInputNode'', nodeOutputName = ''document''\<rparr>]\<rparr>]"
  using test_flow_same_input_shape [of "''YOUR_FLOW_ID''" "''YOUR_FLOW_ALIAS_ID''" "''us-east-1''"
      service_answers "''2024-05-01T10:00:00''" "''2024-05-01T10:00:01''"
      "''Hello, this is a test message''"
      "\<lparr>get_json = Inr (JObj [(''input'', JStr ''Hello, this is a test message'')])\<rparr>"
      "[(''input'', JStr ''Hello, this is a test message'')]"]
  by simp

end
